theory Spec2Isabelle
  imports Main
begin

section \<open>The downloader module \<^verbatim>\<open>scripts/utils/downloader.py\<close>\<close>

text \<open>
  The module wires a media library (pytube) to a window toolkit. The embedding keeps the
  module's own control flow: what is stored in \<^verbatim>\<open>select_dict\<close>, which checks
  \<^verbatim>\<open>download\<close> makes and in which order, and which widget updates and transfers it issues.
  Window updates, popups and transfers are recorded in a log of events; a Python exception is
  a value of the type \<open>error\<close>.
\<close>

subsection \<open>Data\<close>

text \<open>
  \<^verbatim>\<open>DownloadOption(resolution, type, progressive, abr)\<close>: the class is declared in
  \<^verbatim>\<open>download_option.py\<close>; the module builds it positionally and reads the four attributes
  \<^verbatim>\<open>RESOLUTION\<close>, \<^verbatim>\<open>TYPE\<close> (here \<open>TYPE_o\<close>), \<^verbatim>\<open>PROGRESSIVE\<close>, \<^verbatim>\<open>ABR\<close>.
\<close>

record DownloadOption =
  RESOLUTION :: "string option"
  TYPE_o :: string
  PROGRESSIVE :: bool
  ABR :: "string option"

definition LD :: DownloadOption where
  "LD = \<lparr>RESOLUTION = Some ''360p'', TYPE_o = ''video'', PROGRESSIVE = True, ABR = None\<rparr>"

definition HD :: DownloadOption where
  "HD = \<lparr>RESOLUTION = Some ''720p'', TYPE_o = ''video'', PROGRESSIVE = True, ABR = None\<rparr>"

definition AUDIO :: DownloadOption where
  "AUDIO = \<lparr>RESOLUTION = None, TYPE_o = ''audio'', PROGRESSIVE = False, ABR = Some ''128kbps''\<rparr>"

text \<open>
  A stream of the library. The module reads \<^verbatim>\<open>filesize\<close> and calls \<^verbatim>\<open>download\<close>; the
  other attributes are the ones the library's filter compares and the container
  (\<^verbatim>\<open>subtype\<close>) of the file the stream holds.
\<close>

record Stream =
  resolution :: "string option"
  kind :: string
  is_progressive :: bool
  abr :: "string option"
  subtype :: string
  filesize :: int

record Video =
  title :: string
  streams :: "Stream list"

text \<open>
  A playlist of the library: \<^verbatim>\<open>length\<close> is the item count the library reports,
  \<^verbatim>\<open>videos\<close> the items it enumerates.
\<close>

record Playlist =
  title_p :: string
  length_p :: int
  videos :: "Video list"

text \<open>
  The library, as far as the module calls it: \<open>query\<close> is
  \<^verbatim>\<open>streams.filter(resolution=, type=, progressive=, abr=)\<close> on a catalogue, and
  \<open>transfers s path name\<close> tells whether \<^verbatim>\<open>s.download(output_path=path, filename=name)\<close>
  returns (otherwise it raises, and the module catches nothing).
\<close>

record pytube =
  query :: "string option \<Rightarrow> string \<Rightarrow> bool \<Rightarrow> string option \<Rightarrow> Stream list \<Rightarrow> Stream list"
  transfers :: "Stream \<Rightarrow> string \<Rightarrow> string \<Rightarrow> bool"

text \<open>
  The three static helpers the module inherits from \<^verbatim>\<open>YouTubeDownloader\<close>
  (\<^verbatim>\<open>downloader_base.py\<close>); the module only calls them, so they are parameters here.
\<close>

record YouTubeDownloader =
  remove_forbidden_characters :: "string \<Rightarrow> string"
  rename_dir :: "string \<Rightarrow> string \<Rightarrow> string"
  rename_file :: "string \<Rightarrow> string \<Rightarrow> string"

datatype error = AttributeError | KeyError | TransferFailure

text \<open>
  What the module does to the outside: a popup with its text, a call of
  \<^verbatim>\<open>stream.download(output_path, filename)\<close> (logged when the call is made), an update of
  the progress bar and an update of the counter text.
\<close>

datatype event =
  Popup string
  | Transfer Stream string string
  | UpdateProgress int
  | UpdateCompleted string

definition DOWNLOAD_DIR_POPUP :: event where
  "DOWNLOAD_DIR_POPUP = Popup ''Please select a download directory''"

definition RESOLUTION_UNAVAILABLE_POPUP :: event where
  "RESOLUTION_UNAVAILABLE_POPUP = Popup ''This resolution is resolution unavailable.''"

subsection \<open>Decimal text of an integer (\<^verbatim>\<open>str(int)\<close>, as an f-string renders it)\<close>

definition digit_char :: "nat \<Rightarrow> char" where
  "digit_char d = char_of (48 + d)"

fun str_nat :: "nat \<Rightarrow> string" where
  "str_nat n = (if n < 10 then [digit_char n] else str_nat (n div 10) @ [digit_char (n mod 10)])"

declare str_nat.simps [simp del]

definition str_int :: "int \<Rightarrow> string" where
  "str_int i = (if i < 0 then CHR ''-'' # str_nat (nat (- i)) else str_nat (nat i))"

subsection \<open>Resolving streams\<close>

text \<open>\<^verbatim>\<open>StreamQuery.first()\<close>: the first stream of a query result, or \<^verbatim>\<open>None\<close>.\<close>

definition first :: "'a list \<Rightarrow> 'a option" where
  "first xs = (case xs of [] \<Rightarrow> None | x # _ \<Rightarrow> Some x)"

text \<open>\<^verbatim>\<open>VideoDownloader.get_video\<close>, and the same expression in the playlist's loops.\<close>

definition get_video :: "pytube \<Rightarrow> Video \<Rightarrow> DownloadOption \<Rightarrow> Stream option" where
  "get_video L v opt =
     first (query L (RESOLUTION opt) (TYPE_o opt) (PROGRESSIVE opt) (ABR opt) (streams v))"

text \<open>
  \<^verbatim>\<open>PlaylistDownloader.get_playlist\<close>: one entry per enumerated video, \<^verbatim>\<open>None\<close> where
  the query is empty.
\<close>

definition get_playlist :: "pytube \<Rightarrow> Playlist \<Rightarrow> DownloadOption \<Rightarrow> Stream option list" where
  "get_playlist L p opt = map (\<lambda>v. get_video L v opt) (videos p)"

text \<open>The dictionary \<^verbatim>\<open>select_dict\<close> that \<^verbatim>\<open>PlaylistDownloader.__init__\<close> builds.\<close>

definition playlist_select_dict ::
  "pytube \<Rightarrow> Playlist \<Rightarrow> (DownloadOption \<rightharpoonup> Stream option list option)" where
  "playlist_select_dict L p =
     (let hd_list = get_playlist L p HD;
          ld_list = get_playlist L p LD;
          audio_list = get_playlist L p AUDIO
      in [HD \<mapsto> (if int (length hd_list) = length_p p then Some hd_list else None),
          LD \<mapsto> (if int (length ld_list) = length_p p then Some ld_list else None),
          AUDIO \<mapsto> (if int (length audio_list) = length_p p then Some ld_list else None)])"

text \<open>The dictionary \<^verbatim>\<open>select_dict\<close> that \<^verbatim>\<open>VideoDownloader.__init__\<close> builds.\<close>

definition video_select_dict :: "pytube \<Rightarrow> Video \<Rightarrow> (DownloadOption \<rightharpoonup> Stream option)" where
  "video_select_dict L v = [HD \<mapsto> get_video L v HD, LD \<mapsto> get_video L v LD, AUDIO \<mapsto> get_video L v AUDIO]"

subsection \<open>Size labels\<close>

text \<open>
  \<^verbatim>\<open>sum(video.filesize for video in xs)\<close>: reading \<^verbatim>\<open>filesize\<close> of a \<^verbatim>\<open>None\<close> entry
  raises \<^verbatim>\<open>AttributeError\<close>.
\<close>

fun sum_filesize :: "Stream option list \<Rightarrow> error + int" where
  "sum_filesize [] = Inr 0"
| "sum_filesize (None # xs) = Inl AttributeError"
| "sum_filesize (Some s # xs) =
     (case sum_filesize xs of Inl e \<Rightarrow> Inl e | Inr n \<Rightarrow> Inr (filesize s + n))"

text \<open>
  The parameter \<open>mb\<close> stands for the floating-point rendering
  \<^verbatim>\<open>f"{round(n / 1048576, 1)} MB"\<close> of a byte count \<open>n\<close>.
\<close>

definition get_playlist_size ::
  "(int \<Rightarrow> string) \<Rightarrow> (DownloadOption \<rightharpoonup> Stream option list option) \<Rightarrow> DownloadOption \<Rightarrow> error + string" where
  "get_playlist_size mb sd opt =
     (case sd opt of
        None \<Rightarrow> Inl KeyError
      | Some None \<Rightarrow> Inr ''Unavailable''
      | Some (Some xs) \<Rightarrow> (case sum_filesize xs of Inl e \<Rightarrow> Inl e | Inr n \<Rightarrow> Inr (mb n)))"

definition get_video_size ::
  "(int \<Rightarrow> string) \<Rightarrow> (DownloadOption \<rightharpoonup> Stream option) \<Rightarrow> DownloadOption \<Rightarrow> error + string" where
  "get_video_size mb sd opt =
     (case sd opt of
        None \<Rightarrow> Inl KeyError
      | Some None \<Rightarrow> Inr ''Unavailable''
      | Some (Some s) \<Rightarrow> Inr (mb (filesize s)))"

subsection \<open>The two downloader objects\<close>

record PlaylistDownloader =
  playlist :: Playlist
  select_dict :: "DownloadOption \<rightharpoonup> Stream option list option"
  size_labels :: "string list"

record VideoDownloader =
  video :: Video
  select_dict_v :: "DownloadOption \<rightharpoonup> Stream option"
  size_labels_v :: "string list"

text \<open>
  \<^verbatim>\<open>PlaylistDownloader.__init__\<close>: the dictionary, then the layout, which renders the
  size label of \<^verbatim>\<open>HD\<close>, \<^verbatim>\<open>LD\<close> and \<^verbatim>\<open>AUDIO\<close> in this order. An exception of a label
  leaves the constructor.
\<close>

definition PlaylistDownloader_init ::
  "pytube \<Rightarrow> (int \<Rightarrow> string) \<Rightarrow> Playlist \<Rightarrow> error + PlaylistDownloader" where
  "PlaylistDownloader_init L mb p =
     (let sd = playlist_select_dict L p in
      case get_playlist_size mb sd HD of
        Inl e \<Rightarrow> Inl e
      | Inr h \<Rightarrow>
          (case get_playlist_size mb sd LD of
             Inl e \<Rightarrow> Inl e
           | Inr l \<Rightarrow>
               (case get_playlist_size mb sd AUDIO of
                  Inl e \<Rightarrow> Inl e
                | Inr a \<Rightarrow> Inr \<lparr>playlist = p, select_dict = sd, size_labels = [h, l, a]\<rparr>)))"

definition VideoDownloader_init ::
  "pytube \<Rightarrow> (int \<Rightarrow> string) \<Rightarrow> Video \<Rightarrow> error + VideoDownloader" where
  "VideoDownloader_init L mb v =
     (let sd = video_select_dict L v in
      case get_video_size mb sd HD of
        Inl e \<Rightarrow> Inl e
      | Inr h \<Rightarrow>
          (case get_video_size mb sd LD of
             Inl e \<Rightarrow> Inl e
           | Inr l \<Rightarrow>
               (case get_video_size mb sd AUDIO of
                  Inl e \<Rightarrow> Inl e
                | Inr a \<Rightarrow> Inr \<lparr>video = v, select_dict_v = sd, size_labels_v = [h, l, a]\<rparr>)))"

subsection \<open>Downloading\<close>

text \<open>\<^verbatim>\<open>__download_complete\<close> and \<^verbatim>\<open>__on_complete\<close>: reset both widgets, then notify.\<close>

definition download_complete :: "event list" where
  "download_complete = [UpdateProgress 0, UpdateCompleted [], Popup ''Download completed'']"

text \<open>The file name the playlist loop gives an item.\<close>

definition item_filename :: "YouTubeDownloader \<Rightarrow> Video \<Rightarrow> string" where
  "item_filename H v = remove_forbidden_characters H (title v) @ ''.mp4''"

text \<open>
  The loop of \<^verbatim>\<open>PlaylistDownloader.download\<close> over \<^verbatim>\<open>self.playlist.videos\<close>, with
  \<^verbatim>\<open>download_counter\<close> as \<open>c\<close> and \<^verbatim>\<open>self.playlist.length\<close> as \<open>plen\<close>. Calling
  \<^verbatim>\<open>download\<close> on a \<^verbatim>\<open>None\<close> query result raises \<^verbatim>\<open>AttributeError\<close> before the
  file name is computed.
\<close>

fun download_items ::
  "pytube \<Rightarrow> YouTubeDownloader \<Rightarrow> DownloadOption \<Rightarrow> string \<Rightarrow> int \<Rightarrow> int \<Rightarrow> Video list
     \<Rightarrow> event list \<times> error option" where
  "download_items L H opt dir plen c [] = ([], None)"
| "download_items L H opt dir plen c (v # vs) =
     (case get_video L v opt of
        None \<Rightarrow> ([], Some AttributeError)
      | Some s \<Rightarrow>
          if transfers L s dir (item_filename H v) then
            (case download_items L H opt dir plen (c + 1) vs of
               (evs, r) \<Rightarrow>
                 (Transfer s dir (item_filename H v) # UpdateProgress (c + 1)
                    # UpdateCompleted (str_int (c + 1) @ '' of '' @ str_int plen) # evs, r))
          else ([Transfer s dir (item_filename H v)], Some TransferFailure))"

text \<open>\<^verbatim>\<open>PlaylistDownloader.download\<close>, with \<^verbatim>\<open>self.folder\<close> as \<open>folder\<close>.\<close>

definition download_playlist ::
  "pytube \<Rightarrow> YouTubeDownloader \<Rightarrow> PlaylistDownloader \<Rightarrow> string \<Rightarrow> DownloadOption
     \<Rightarrow> event list \<times> error option" where
  "download_playlist L H self folder opt =
     (case select_dict self opt of
        None \<Rightarrow> ([], Some KeyError)
      | Some None \<Rightarrow> ([RESOLUTION_UNAVAILABLE_POPUP], None)
      | Some (Some xs) \<Rightarrow>
          if folder = [] then ([DOWNLOAD_DIR_POPUP], None)
          else
            (let download_dir =
                   rename_dir H folder (remove_forbidden_characters H (title_p (playlist self)))
             in case download_items L H opt download_dir (length_p (playlist self)) 0
                       (videos (playlist self)) of
                  (evs, None) \<Rightarrow> (evs @ download_complete, None)
                | (evs, Some e) \<Rightarrow> (evs, Some e)))"

text \<open>The file name \<^verbatim>\<open>VideoDownloader.download\<close> gives the video.\<close>

definition video_filename :: "YouTubeDownloader \<Rightarrow> string \<Rightarrow> Video \<Rightarrow> string" where
  "video_filename H folder v =
     rename_file H folder (remove_forbidden_characters H (title v)) @ ''.mp4''"

text \<open>
  \<^verbatim>\<open>VideoDownloader.download\<close>. The progress and completion callbacks are called by the
  library during the transfer and are not part of this function.
\<close>

definition download_video ::
  "pytube \<Rightarrow> YouTubeDownloader \<Rightarrow> VideoDownloader \<Rightarrow> string \<Rightarrow> DownloadOption
     \<Rightarrow> event list \<times> error option" where
  "download_video L H self folder opt =
     (case select_dict_v self opt of
        None \<Rightarrow> ([], Some KeyError)
      | Some None \<Rightarrow> ([RESOLUTION_UNAVAILABLE_POPUP], None)
      | Some (Some s) \<Rightarrow>
          if folder = [] then ([DOWNLOAD_DIR_POPUP], None)
          else if transfers L s folder (video_filename H folder (video self))
          then ([Transfer s folder (video_filename H folder (video self))], None)
          else ([Transfer s folder (video_filename H folder (video self))], Some TransferFailure))"

subsection \<open>What the expected log of a playlist download is made of\<close>

text \<open>An item completes when its query has a first match and the transfer of it returns.\<close>

definition item_completes ::
  "pytube \<Rightarrow> YouTubeDownloader \<Rightarrow> DownloadOption \<Rightarrow> string \<Rightarrow> Video \<Rightarrow> bool" where
  "item_completes L H opt dir v =
     (case get_video L v opt of None \<Rightarrow> False | Some s \<Rightarrow> transfers L s dir (item_filename H v))"

text \<open>The number of leading items that complete.\<close>

definition completed_count ::
  "pytube \<Rightarrow> YouTubeDownloader \<Rightarrow> DownloadOption \<Rightarrow> string \<Rightarrow> Video list \<Rightarrow> nat" where
  "completed_count L H opt dir vs = length (takeWhile (item_completes L H opt dir) vs)"

text \<open>The three events of an item that completes as number \<open>i\<close> of \<open>plen\<close>.\<close>

definition item_events ::
  "pytube \<Rightarrow> YouTubeDownloader \<Rightarrow> DownloadOption \<Rightarrow> string \<Rightarrow> int \<Rightarrow> int \<Rightarrow> Video \<Rightarrow> event list" where
  "item_events L H opt dir plen i v =
     (case get_video L v opt of
        None \<Rightarrow> []
      | Some s \<Rightarrow>
          [Transfer s dir (item_filename H v), UpdateProgress i,
           UpdateCompleted (str_int i @ '' of '' @ str_int plen)])"

text \<open>What the loop leaves behind at an item that does not complete.\<close>

definition stop_events ::
  "pytube \<Rightarrow> YouTubeDownloader \<Rightarrow> DownloadOption \<Rightarrow> string \<Rightarrow> Video \<Rightarrow> event list" where
  "stop_events L H opt dir v =
     (case get_video L v opt of None \<Rightarrow> [] | Some s \<Rightarrow> [Transfer s dir (item_filename H v)])"

definition stop_error :: "pytube \<Rightarrow> Video \<Rightarrow> DownloadOption \<Rightarrow> error" where
  "stop_error L v opt = (case get_video L v opt of None \<Rightarrow> AttributeError | Some s \<Rightarrow> TransferFailure)"

text \<open>The number of leading items whose transfer is started.\<close>

fun attempted_count ::
  "pytube \<Rightarrow> YouTubeDownloader \<Rightarrow> DownloadOption \<Rightarrow> string \<Rightarrow> Video list \<Rightarrow> nat" where
  "attempted_count L H opt dir [] = 0"
| "attempted_count L H opt dir (v # vs) =
     (case get_video L v opt of
        None \<Rightarrow> 0
      | Some s \<Rightarrow>
          if transfers L s dir (item_filename H v) then Suc (attempted_count L H opt dir vs)
          else 1)"

text \<open>The streams a log transfers, in order.\<close>

fun transferred :: "event list \<Rightarrow> Stream list" where
  "transferred [] = []"
| "transferred (Transfer s d f # es) = s # transferred es"
| "transferred (e # es) = transferred es"

section \<open>The helpers of \<^verbatim>\<open>downloader_base.py\<close>, from the specification\<close>

text \<open>
  Modelled from the spec: \<^verbatim>\<open>remove_forbidden_characters\<close> of \<^verbatim>\<open>YouTubeDownloader\<close>
  (\<^verbatim>\<open>downloader_base.py\<close> is not among the sources). The specification's \<open>sanitize\<close>
  strips the characters that are invalid in file and directory names, at least
  backslash, slash, colon, asterisk, question mark, double quote, the angle brackets and
  the bar.
\<close>

definition forbidden_characters :: "char list" where
  "forbidden_characters =
     [CHR 0x5C, CHR ''/'', CHR '':'', CHR ''*'', CHR ''?'', CHR 0x22, CHR ''<'', CHR ''>'', CHR ''|'']"

definition sanitize :: "string \<Rightarrow> string" where
  "sanitize name = filter (\<lambda>c. c \<notin> set forbidden_characters) name"

text \<open>
  Modelled from the spec: \<^verbatim>\<open>rename_dir\<close> of \<^verbatim>\<open>YouTubeDownloader\<close>
  (\<^verbatim>\<open>downloader_base.py\<close> is not among the sources). The specification's
  \<open>dedupe_dir(parent, name)\<close> returns \<open>parent/name\<close> if it does not exist, else appends a
  disambiguator until a path is found that does not collide; its example turns
  \<open>MyList\<close> into \<open>MyList (1)\<close>. The paths that exist at call time are the list \<open>fs\<close>.
\<close>

definition join_path :: "string \<Rightarrow> string \<Rightarrow> string" where
  "join_path parent name = parent @ ''/'' @ name"

definition numbered :: "string \<Rightarrow> nat \<Rightarrow> string" where
  "numbered name i = name @ '' ('' @ str_nat i @ '')''"

lemma digit_char_inj: "a < 10 \<Longrightarrow> b < 10 \<Longrightarrow> digit_char a = digit_char b \<Longrightarrow> a = b"
proof -
  assume a: "a < 10" and b: "b < 10" and e: "digit_char a = digit_char b"
  from e have "of_char (char_of (48 + a)) = (of_char (char_of (48 + b)) :: nat)"
    by (simp add: digit_char_def)
  with a b show "a = b" by simp
qed

lemma str_nat_not_Nil: "str_nat n \<noteq> []"
  by (subst str_nat.simps) simp

lemma str_nat_inj: "str_nat m = str_nat n \<Longrightarrow> m = n"
proof (induction m arbitrary: n rule: str_nat.induct)
  case (1 m)
  show ?case
  proof (cases "m < 10")
    case True
    show ?thesis
    proof (cases "n < 10")
      case True
      with \<open>m < 10\<close> "1.prems" show ?thesis
        by (simp add: str_nat.simps [of m] str_nat.simps [of n] digit_char_inj)
    next
      case False
      with \<open>m < 10\<close> "1.prems" show ?thesis
        by (simp add: str_nat.simps [of m] str_nat.simps [of n] str_nat_not_Nil [symmetric])
    qed
  next
    case False
    show ?thesis
    proof (cases "n < 10")
      case True
      with \<open>\<not> m < 10\<close> "1.prems" show ?thesis
        by (simp add: str_nat.simps [of m] str_nat.simps [of n] str_nat_not_Nil)
    next
      case n: False
      from False n "1.prems"
      have e: "str_nat (m div 10) = str_nat (n div 10)"
        and d: "digit_char (m mod 10) = digit_char (n mod 10)"
        by (simp_all add: str_nat.simps [of m] str_nat.simps [of n])
      from "1.IH" [OF False e] have "m div 10 = n div 10" .
      moreover from d have "m mod 10 = n mod 10" by (intro digit_char_inj) simp_all
      ultimately show ?thesis by (metis div_mult_mod_eq)
    qed
  qed
qed

lemma numbered_inj:
  "join_path parent (numbered name i) = join_path parent (numbered name j) \<Longrightarrow> i = j"
  by (simp add: join_path_def numbered_def str_nat_inj)

lemma finite_taken: "finite {j. join_path parent (numbered name j) \<in> set fs}"
proof -
  have "inj (\<lambda>j. join_path parent (numbered name j))"
    by (rule injI) (rule numbered_inj)
  then have "finite ((\<lambda>j. join_path parent (numbered name j)) -` set fs)"
    by (rule finite_vimageI [OF finite_set])
  then show ?thesis by (simp add: vimage_def)
qed

function dedupe_from :: "string list \<Rightarrow> string \<Rightarrow> string \<Rightarrow> nat \<Rightarrow> string" where
  "dedupe_from fs parent name i =
     (if join_path parent (numbered name i) \<in> set fs then dedupe_from fs parent name (i + 1)
      else join_path parent (numbered name i))"
  by pat_completeness auto
termination
proof (relation "measure (\<lambda>(fs, parent, name, i).
          card {j. i \<le> j \<and> join_path parent (numbered name j) \<in> set fs})")
  show "wf (measure (\<lambda>(fs, parent, name, i).
          card {j. i \<le> j \<and> join_path parent (numbered name j) \<in> set fs}))"
    by simp
next
  fix fs :: "string list" and parent name :: string and i :: nat
  assume taken: "join_path parent (numbered name i) \<in> set fs"
  let ?A = "\<lambda>k. {j. k \<le> j \<and> join_path parent (numbered name j) \<in> set fs}"
  have fin: "finite (?A i)"
    by (rule finite_subset [OF _ finite_taken [of parent name fs]]) auto
  have "i \<in> ?A i" and "i \<notin> ?A (i + 1)" and "?A (i + 1) \<subseteq> ?A i"
    using taken by auto
  then have "?A (i + 1) \<subset> ?A i"
    by blast
  then have "card (?A (i + 1)) < card (?A i)"
    by (rule psubset_card_mono [OF fin])
  then show "((fs, parent, name, i + 1), (fs, parent, name, i))
      \<in> measure (\<lambda>(fs, parent, name, i).
          card {j. i \<le> j \<and> join_path parent (numbered name j) \<in> set fs})"
    by simp
qed

declare dedupe_from.simps [simp del]

definition dedupe_dir :: "string list \<Rightarrow> string \<Rightarrow> string \<Rightarrow> string" where
  "dedupe_dir fs parent name =
     (if join_path parent name \<in> set fs then dedupe_from fs parent name 1
      else join_path parent name)"

section \<open>Concrete inputs\<close>

text \<open>
  An instance of the library for concrete inputs. Its filter applies a criterion only
  when it is given (not \<^verbatim>\<open>None\<close>, not \<^verbatim>\<open>False\<close>) and keeps the streams that meet all
  the given ones, in catalogue order; every transfer returns.
\<close>

definition StreamQuery_filter ::
  "string option \<Rightarrow> string \<Rightarrow> bool \<Rightarrow> string option \<Rightarrow> Stream list \<Rightarrow> Stream list" where
  "StreamQuery_filter res ty prog rate ss =
     filter (\<lambda>s. (case res of None \<Rightarrow> True | Some r \<Rightarrow> resolution s = Some r)
                 \<and> kind s = ty
                 \<and> (if prog then is_progressive s else True)
                 \<and> (case rate of None \<Rightarrow> True | Some b \<Rightarrow> abr s = Some b)) ss"

definition lib :: pytube where
  "lib = \<lparr>query = StreamQuery_filter, transfers = (\<lambda>s path name. True)\<rparr>"

text \<open>
  An instance of the helpers for concrete inputs: the two functions modelled from the
  specification, over the existing paths \<open>fs\<close>, and a \<^verbatim>\<open>rename_file\<close> that keeps the name.
\<close>

definition helpers :: "string list \<Rightarrow> YouTubeDownloader" where
  "helpers fs =
     \<lparr>remove_forbidden_characters = sanitize, rename_dir = dedupe_dir fs,
      rename_file = (\<lambda>folder name. name)\<rparr>"

definition s360 :: Stream where
  "s360 = \<lparr>resolution = Some ''360p'', kind = ''video'', is_progressive = True,
           abr = Some ''96kbps'', subtype = ''mp4'', filesize = 31457280\<rparr>"

definition s720 :: Stream where
  "s720 = \<lparr>resolution = Some ''720p'', kind = ''video'', is_progressive = True,
           abr = Some ''192kbps'', subtype = ''mp4'', filesize = 104857600\<rparr>"

definition a128 :: Stream where
  "a128 = \<lparr>resolution = None, kind = ''audio'', is_progressive = False,
           abr = Some ''128kbps'', subtype = ''mp4'', filesize = 4194304\<rparr>"

definition a128_webm :: Stream where
  "a128_webm = \<lparr>resolution = None, kind = ''audio'', is_progressive = False,
                abr = Some ''128kbps'', subtype = ''webm'', filesize = 4194304\<rparr>"

text \<open>A video without a 128kbps audio stream, one without a 720p stream, and one with all.\<close>

definition v_no_audio :: Video where
  "v_no_audio = \<lparr>title = ''Intro: part 1'', streams = [s360, s720]\<rparr>"

definition v_no_hd :: Video where
  "v_no_hd = \<lparr>title = ''Old clip'', streams = [s360, a128]\<rparr>"

definition v_all :: Video where
  "v_all = \<lparr>title = ''Song'', streams = [s360, s720, a128]\<rparr>"

definition v_webm :: Video where
  "v_webm = \<lparr>title = ''Live?'', streams = [s360, s720, a128_webm]\<rparr>"

definition pl_no_audio :: Playlist where
  "pl_no_audio = \<lparr>title_p = ''Mix'', length_p = 1, videos = [v_no_audio]\<rparr>"

definition pl_no_hd :: Playlist where
  "pl_no_hd = \<lparr>title_p = ''Mix'', length_p = 1, videos = [v_no_hd]\<rparr>"

definition pl_all :: Playlist where
  "pl_all = \<lparr>title_p = ''Mix'', length_p = 1, videos = [v_all]\<rparr>"

definition pl_three :: Playlist where
  "pl_three = \<lparr>title_p = ''My/List'', length_p = 3, videos = [v_all, v_no_audio, v_webm]\<rparr>"

text \<open>A playlist whose reported item count differs from the number of enumerated items.\<close>

definition pl_short :: Playlist where
  "pl_short = \<lparr>title_p = ''Mix'', length_p = 2, videos = [v_all]\<rparr>"

text \<open>The objects the two constructors return, given the size labels of the layout.\<close>

definition playlist_object :: "pytube \<Rightarrow> Playlist \<Rightarrow> string list \<Rightarrow> PlaylistDownloader" where
  "playlist_object L p labels =
     \<lparr>playlist = p, select_dict = playlist_select_dict L p, size_labels = labels\<rparr>"

definition video_object :: "pytube \<Rightarrow> Video \<Rightarrow> string list \<Rightarrow> VideoDownloader" where
  "video_object L v labels =
     \<lparr>video = v, select_dict_v = video_select_dict L v, size_labels_v = labels\<rparr>"

section \<open>Properties\<close>

subsection \<open>The dictionary of a playlist\<close>

lemma options_distinct:
  "HD \<noteq> LD" "HD \<noteq> AUDIO" "LD \<noteq> AUDIO" "LD \<noteq> HD" "AUDIO \<noteq> HD" "AUDIO \<noteq> LD"
  by (simp_all add: HD_def LD_def AUDIO_def)

lemma select_dict_HD:
  "playlist_select_dict L p HD =
     Some (if int (length (videos p)) = length_p p then Some (get_playlist L p HD) else None)"
  by (simp add: playlist_select_dict_def Let_def options_distinct get_playlist_def)

lemma select_dict_LD:
  "playlist_select_dict L p LD =
     Some (if int (length (videos p)) = length_p p then Some (get_playlist L p LD) else None)"
  by (simp add: playlist_select_dict_def Let_def options_distinct get_playlist_def)

lemma select_dict_AUDIO:
  "playlist_select_dict L p AUDIO =
     Some (if int (length (videos p)) = length_p p then Some (get_playlist L p LD) else None)"
  by (simp add: playlist_select_dict_def Let_def options_distinct get_playlist_def)

lemma select_dict_available_length:
  "playlist_select_dict L p opt = Some (Some xs) \<Longrightarrow> length_p p = int (length (videos p))"
  by (auto simp: playlist_select_dict_def Let_def get_playlist_def split: if_splits)

text \<open>
  C1. The claim: the selection stored for an option is available exactly when every item
  of the playlist resolves under that option. The code compares the length of a list that
  holds one entry per item, \<^verbatim>\<open>None\<close> included, with the reported item count. Here a
  playlist of one video without a 128kbps audio stream: the item does not resolve under
  \<^verbatim>\<open>AUDIO\<close>, the tier is stored as available, the constructor returns, and the download
  of the tier raises \<^verbatim>\<open>AttributeError\<close> at the first item.
\<close>

theorem audio_tier_available_though_item_unresolved:
  "get_playlist lib pl_no_audio AUDIO = [None]
   \<and> playlist_select_dict lib pl_no_audio AUDIO = Some (Some [Some s360])
   \<and> PlaylistDownloader_init lib mb pl_no_audio =
       Inr (playlist_object lib pl_no_audio [mb 104857600, mb 31457280, mb 31457280])
   \<and> download_playlist lib (helpers [])
         (playlist_object lib pl_no_audio [mb 104857600, mb 31457280, mb 31457280]) ''out'' AUDIO
       = ([], Some AttributeError)"
proof -
  have a: "get_playlist lib pl_no_audio AUDIO = [None]"
    by code_simp
  have l: "get_playlist lib pl_no_audio LD = [Some s360]"
    by code_simp
  have h: "get_playlist lib pl_no_audio HD = [Some s720]"
    by code_simp
  have p: "length_p pl_no_audio = 1" "videos pl_no_audio = [v_no_audio]"
    by (simp_all add: pl_no_audio_def)
  have sd: "playlist_select_dict lib pl_no_audio AUDIO = Some (Some [Some s360])"
    by (simp add: select_dict_AUDIO p l)
  have init: "PlaylistDownloader_init lib mb pl_no_audio =
       Inr (playlist_object lib pl_no_audio [mb 104857600, mb 31457280, mb 31457280])"
    by (simp add: PlaylistDownloader_init_def playlist_object_def get_playlist_size_def
        select_dict_HD select_dict_LD select_dict_AUDIO p l h s360_def s720_def)
  have v: "get_video lib v_no_audio AUDIO = None"
    using a by (simp add: get_playlist_def p)
  have d: "download_playlist lib (helpers [])
         (playlist_object lib pl_no_audio [mb 104857600, mb 31457280, mb 31457280]) ''out'' AUDIO
       = ([], Some AttributeError)"
    by (simp add: download_playlist_def playlist_object_def sd p v)
  from a sd init d show ?thesis by simp
qed

text \<open>
  C2. The claim: the entry stored for \<^verbatim>\<open>AUDIO\<close> is the list resolved under the filters of
  \<^verbatim>\<open>AUDIO\<close>. The code stores \<^verbatim>\<open>ld_list\<close>. Here a playlist of one video that has a 360p
  stream and a 128kbps audio stream: the entry is the 360p stream.
\<close>

theorem audio_entry_holds_low_resolution_streams:
  "playlist_select_dict lib pl_all AUDIO = Some (Some [Some s360])
   \<and> get_playlist lib pl_all AUDIO = [Some a128]
   \<and> get_playlist lib pl_all LD = [Some s360]
   \<and> s360 \<noteq> a128"
proof -
  have a: "get_playlist lib pl_all AUDIO = [Some a128]"
    by code_simp
  have l: "get_playlist lib pl_all LD = [Some s360]"
    by code_simp
  have p: "length_p pl_all = 1" "videos pl_all = [v_all]"
    by (simp_all add: pl_all_def)
  have sd: "playlist_select_dict lib pl_all AUDIO = Some (Some [Some s360])"
    by (simp add: select_dict_AUDIO p l)
  have ne: "s360 \<noteq> a128"
    by (simp add: s360_def a128_def)
  from a l sd ne show ?thesis by simp
qed

subsection \<open>What the size labels return\<close>

text \<open>
  The label of a playlist is \<^verbatim>\<open>Unavailable\<close> for a stored \<^verbatim>\<open>None\<close>, the rendering of the
  summed sizes for a list of streams, and an exception for a list with a \<^verbatim>\<open>None\<close> entry.
  The label of a single video never raises on the dictionary its constructor builds. A
  playlist constructor that returns has resolved every item under \<^verbatim>\<open>HD\<close> and \<^verbatim>\<open>LD\<close>
  whenever it stored these tiers as available.
\<close>

lemma sum_filesize_resolved: "sum_filesize (map Some ss) = Inr (sum_list (map filesize ss))"
  by (induction ss) simp_all

lemma sum_filesize_unresolved: "None \<in> set xs \<Longrightarrow> sum_filesize xs = Inl AttributeError"
proof (induction xs rule: sum_filesize.induct)
  case 1
  then show ?case by simp
next
  case (2 xs)
  show ?case by simp
next
  case (3 s xs)
  then show ?case by simp
qed

lemma get_playlist_size_unavailable:
  "sd opt = Some None \<Longrightarrow> get_playlist_size mb sd opt = Inr ''Unavailable''"
  by (simp add: get_playlist_size_def)

lemma get_playlist_size_resolved:
  "sd opt = Some (Some (map Some ss)) \<Longrightarrow>
     get_playlist_size mb sd opt = Inr (mb (sum_list (map filesize ss)))"
  by (simp add: get_playlist_size_def sum_filesize_resolved)

lemma get_playlist_size_unresolved:
  "sd opt = Some (Some xs) \<Longrightarrow> None \<in> set xs \<Longrightarrow> get_playlist_size mb sd opt = Inl AttributeError"
  by (simp add: get_playlist_size_def sum_filesize_unresolved)

lemma get_video_size_built:
  "opt = HD \<or> opt = LD \<or> opt = AUDIO \<Longrightarrow>
     get_video_size mb (video_select_dict L v) opt =
       Inr (case get_video L v opt of None \<Rightarrow> ''Unavailable'' | Some s \<Rightarrow> mb (filesize s))"
  by (auto simp: get_video_size_def video_select_dict_def options_distinct split: option.splits)

lemma PlaylistDownloader_init_resolved:
  assumes init: "PlaylistDownloader_init L mb p = Inr self"
    and avail: "select_dict self opt = Some (Some xs)"
    and opt: "opt = HD \<or> opt = LD"
    and v: "v \<in> set (videos p)"
  shows "get_video L v opt \<noteq> None"
proof
  assume none: "get_video L v opt = None"
  from init have sd: "select_dict self = playlist_select_dict L p"
    and ok: "\<exists>t. get_playlist_size mb (playlist_select_dict L p) HD = Inr t"
      "\<exists>t. get_playlist_size mb (playlist_select_dict L p) LD = Inr t"
    by (auto simp: PlaylistDownloader_init_def Let_def split: sum.splits)
  from avail sd opt have xs: "xs = get_playlist L p opt"
    by (auto simp: select_dict_HD select_dict_LD split: if_splits)
  from none v have "None \<in> set (get_playlist L p opt)"
    by (force simp: get_playlist_def)
  with xs avail sd have "get_playlist_size mb (playlist_select_dict L p) opt = Inl AttributeError"
    by (simp add: get_playlist_size_unresolved)
  with ok opt show False by auto
qed

text \<open>
  C4. The claim: the size label is \<^verbatim>\<open>Unavailable\<close> when the selection is \<^verbatim>\<open>None\<close> and a
  text of megabytes otherwise. Here a playlist of one video without a 720p stream: the
  entry of \<^verbatim>\<open>HD\<close> is the list \<^verbatim>\<open>[None]\<close>, the label raises \<^verbatim>\<open>AttributeError\<close> for every
  rendering \<open>mb\<close>, and so does the constructor, which renders the label.
\<close>

theorem playlist_size_raises_on_unresolved_item:
  "playlist_select_dict lib pl_no_hd HD = Some (Some [None])
   \<and> get_playlist_size mb (playlist_select_dict lib pl_no_hd) HD = Inl AttributeError
   \<and> PlaylistDownloader_init lib mb pl_no_hd = Inl AttributeError"
proof -
  have h: "get_playlist lib pl_no_hd HD = [None]"
    by code_simp
  have p: "length_p pl_no_hd = 1" "videos pl_no_hd = [v_no_hd]"
    by (simp_all add: pl_no_hd_def)
  have sd: "playlist_select_dict lib pl_no_hd HD = Some (Some [None])"
    by (simp add: select_dict_HD p h)
  have sz: "get_playlist_size mb (playlist_select_dict lib pl_no_hd) HD = Inl AttributeError"
    by (simp add: get_playlist_size_def sd)
  have init: "PlaylistDownloader_init lib mb pl_no_hd = Inl AttributeError"
    by (simp add: PlaylistDownloader_init_def sz)
  from sd sz init show ?thesis by simp
qed

subsection \<open>The helpers modelled from the specification\<close>

text \<open>
  C9. The sanitizer is idempotent, and its result holds none of the forbidden characters.
\<close>

theorem sanitize_idempotent:
  "sanitize (sanitize x) = sanitize x \<and> set (sanitize x) \<inter> set forbidden_characters = {}"
  by (auto simp: sanitize_def)

lemma dedupe_from_fresh: "dedupe_from fs parent name i \<notin> set fs"
  by (induction fs parent name i rule: dedupe_from.induct) (subst dedupe_from.simps, simp)

lemma dedupe_from_form:
  "\<exists>k\<ge>i. dedupe_from fs parent name i = join_path parent (numbered name k)
       \<and> (\<forall>j. i \<le> j \<and> j < k \<longrightarrow> join_path parent (numbered name j) \<in> set fs)"
proof (induction fs parent name i rule: dedupe_from.induct)
  case (1 fs parent name i)
  show ?case
  proof (cases "join_path parent (numbered name i) \<in> set fs")
    case True
    from "1.IH" [OF True] obtain k where k: "i + 1 \<le> k"
      "dedupe_from fs parent name (i + 1) = join_path parent (numbered name k)"
      "\<forall>j. i + 1 \<le> j \<and> j < k \<longrightarrow> join_path parent (numbered name j) \<in> set fs"
      by blast
    have "\<forall>j. i \<le> j \<and> j < k \<longrightarrow> join_path parent (numbered name j) \<in> set fs"
    proof (intro allI impI)
      fix j assume "i \<le> j \<and> j < k"
      then show "join_path parent (numbered name j) \<in> set fs"
        using True k(3) by (cases "j = i") auto
    qed
    with True k show ?thesis
      by (subst dedupe_from.simps) (auto intro!: exI [of _ k])
  next
    case False
    then show ?thesis
      by (subst dedupe_from.simps) (auto intro!: exI [of _ i])
  qed
qed

text \<open>
  C5. The path \<open>dedupe_dir\<close> returns does not exist at call time. It is \<open>parent/name\<close> when
  that path does not exist; otherwise it is \<open>parent/name (i)\<close> for the least \<open>i \<ge> 1\<close> whose
  path does not exist.
\<close>

theorem dedupe_dir_fresh:
  "dedupe_dir fs parent name \<notin> set fs
   \<and> (join_path parent name \<notin> set fs \<longrightarrow> dedupe_dir fs parent name = join_path parent name)
   \<and> (join_path parent name \<in> set fs \<longrightarrow>
        (\<exists>i\<ge>1. dedupe_dir fs parent name = join_path parent (numbered name i)
           \<and> (\<forall>j. 1 \<le> j \<and> j < i \<longrightarrow> join_path parent (numbered name j) \<in> set fs)))"
  using dedupe_from_form [of 1 fs parent name]
  by (simp add: dedupe_dir_def dedupe_from_fresh)

theorem dedupe_dir_fresh_witness:
  "join_path ''out'' ''MyList'' \<in> set [''out/MyList'', ''out/MyList (1)'']
   \<and> dedupe_dir [''out/MyList'', ''out/MyList (1)''] ''out'' ''MyList'' = ''out/MyList (2)''
   \<and> dedupe_dir [''out/MyList'', ''out/MyList (1)''] ''out'' ''MyList''
       \<notin> set [''out/MyList'', ''out/MyList (1)'']
   \<and> join_path ''out'' ''New'' \<notin> set [''out/MyList'', ''out/MyList (1)'']
   \<and> dedupe_dir [''out/MyList'', ''out/MyList (1)''] ''out'' ''New'' = ''out/New''"
proof -
  let ?fs = "[''out/MyList'', ''out/MyList (1)'']"
  have here: "join_path ''out'' ''MyList'' \<in> set ?fs"
    by (simp add: join_path_def)
  have new: "join_path ''out'' ''New'' \<notin> set ?fs"
    by (simp add: join_path_def)
  have two: "dedupe_dir ?fs ''out'' ''MyList'' = ''out/MyList (2)''"
    by code_simp
  from dedupe_dir_fresh [of ?fs "''out''" "''MyList''"]
  have fresh: "dedupe_dir ?fs ''out'' ''MyList'' \<notin> set ?fs"
    by blast
  from dedupe_dir_fresh [of ?fs "''out''" "''New''"] new
  have plain: "dedupe_dir ?fs ''out'' ''New'' = join_path ''out'' ''New''"
    by blast
  then have "dedupe_dir ?fs ''out'' ''New'' = ''out/New''"
    by (simp add: join_path_def)
  with here new two fresh show ?thesis
    by blast
qed

subsection \<open>The checks of \<^verbatim>\<open>download\<close>\<close>

text \<open>
  C3. Both \<^verbatim>\<open>download\<close> methods check the stored selection first and the folder second.
  When the selection of the option is \<^verbatim>\<open>None\<close>, the whole effect is the popup of the
  unavailable resolution, whatever the folder is; when the selection is there and the folder
  is empty, the whole effect is the popup that asks for a directory. In both cases the
  method returns normally and the log holds no transfer.
\<close>

theorem download_checks_preconditions_in_order:
  "(select_dict self opt = Some None \<longrightarrow>
      download_playlist L H self folder opt = ([RESOLUTION_UNAVAILABLE_POPUP], None))
   \<and> (select_dict self opt = Some (Some xs) \<and> folder = [] \<longrightarrow>
      download_playlist L H self folder opt = ([DOWNLOAD_DIR_POPUP], None))
   \<and> (select_dict_v vself opt = Some None \<longrightarrow>
      download_video L H vself folder opt = ([RESOLUTION_UNAVAILABLE_POPUP], None))
   \<and> (select_dict_v vself opt = Some (Some s) \<and> folder = [] \<longrightarrow>
      download_video L H vself folder opt = ([DOWNLOAD_DIR_POPUP], None))"
  by (simp add: download_playlist_def download_video_def)

theorem download_checks_preconditions_in_order_witness:
  "select_dict (playlist_object lib pl_short []) HD = Some None
   \<and> download_playlist lib (helpers []) (playlist_object lib pl_short []) ''out'' HD
       = ([RESOLUTION_UNAVAILABLE_POPUP], None)
   \<and> download_playlist lib (helpers []) (playlist_object lib pl_short []) [] HD
       = ([RESOLUTION_UNAVAILABLE_POPUP], None)
   \<and> select_dict (playlist_object lib pl_all []) HD = Some (Some [Some s720])
   \<and> download_playlist lib (helpers []) (playlist_object lib pl_all []) [] HD
       = ([DOWNLOAD_DIR_POPUP], None)
   \<and> select_dict_v (video_object lib v_no_audio []) AUDIO = Some None
   \<and> download_video lib (helpers []) (video_object lib v_no_audio []) ''out'' AUDIO
       = ([RESOLUTION_UNAVAILABLE_POPUP], None)
   \<and> select_dict_v (video_object lib v_no_audio []) HD = Some (Some s720)
   \<and> download_video lib (helpers []) (video_object lib v_no_audio []) [] HD
       = ([DOWNLOAD_DIR_POPUP], None)"
proof -
  let ?short = "playlist_object lib pl_short []"
  let ?all = "playlist_object lib pl_all []"
  let ?vid = "video_object lib v_no_audio []"
  have h1: "select_dict ?short HD = Some None"
    by (simp add: playlist_object_def select_dict_HD pl_short_def)
  have g: "get_playlist lib pl_all HD = [Some s720]"
    by code_simp
  have h2: "select_dict ?all HD = Some (Some [Some s720])"
    by (simp add: playlist_object_def select_dict_HD g) (simp add: pl_all_def)
  have h3: "select_dict_v ?vid AUDIO = Some None"
    by code_simp
  have h4: "select_dict_v ?vid HD = Some (Some s720)"
    by code_simp
  note T = download_checks_preconditions_in_order
  from T [where self = ?short and opt = HD and L = lib and H = "helpers []" and folder = "''out''"] h1
  have c1: "download_playlist lib (helpers []) ?short ''out'' HD = ([RESOLUTION_UNAVAILABLE_POPUP], None)"
    by blast
  from T [where self = ?short and opt = HD and L = lib and H = "helpers []" and folder = "[]"] h1
  have c1': "download_playlist lib (helpers []) ?short [] HD = ([RESOLUTION_UNAVAILABLE_POPUP], None)"
    by blast
  from T [where self = ?all and opt = HD and L = lib and H = "helpers []" and folder = "[]"
      and xs = "[Some s720]"] h2
  have c2: "download_playlist lib (helpers []) ?all [] HD = ([DOWNLOAD_DIR_POPUP], None)"
    by blast
  from T [where vself = ?vid and opt = AUDIO and L = lib and H = "helpers []" and folder = "''out''"] h3
  have c3: "download_video lib (helpers []) ?vid ''out'' AUDIO = ([RESOLUTION_UNAVAILABLE_POPUP], None)"
    by blast
  from T [where vself = ?vid and opt = HD and L = lib and H = "helpers []" and folder = "[]"
      and s = s720] h4
  have c4: "download_video lib (helpers []) ?vid [] HD = ([DOWNLOAD_DIR_POPUP], None)"
    by blast
  from h1 h2 h3 h4 c1 c1' c2 c3 c4 show ?thesis
    by blast
qed

subsection \<open>The loop of the playlist download\<close>

lemma completed_count_Nil: "completed_count L H opt dir [] = 0"
  by (simp add: completed_count_def)

lemma completed_count_Cons:
  "completed_count L H opt dir (v # vs) =
     (if item_completes L H opt dir v then Suc (completed_count L H opt dir vs) else 0)"
  by (simp add: completed_count_def)

lemma completed_items_resolve:
  "i < completed_count L H opt dir vs \<Longrightarrow> item_completes L H opt dir (vs ! i)"
  unfolding completed_count_def
  by (metis nth_mem set_takeWhileD takeWhile_nth)

lemma download_items_closed:
  "download_items L H opt dir plen c vs =
     (concat (map (\<lambda>i. item_events L H opt dir plen (c + int i + 1) (vs ! i))
                [0..<completed_count L H opt dir vs])
        @ (if completed_count L H opt dir vs = length vs then []
           else stop_events L H opt dir (vs ! completed_count L H opt dir vs)),
      if completed_count L H opt dir vs = length vs then None
      else Some (stop_error L (vs ! completed_count L H opt dir vs) opt))"
proof (induction vs arbitrary: c)
  case Nil
  show ?case by (simp add: completed_count_Nil)
next
  case (Cons v vs)
  show ?case
  proof (cases "get_video L v opt")
    case None
    then show ?thesis
      by (simp add: completed_count_Cons item_completes_def stop_events_def stop_error_def)
  next
    case (Some s)
    show ?thesis
    proof (cases "transfers L s dir (item_filename H v)")
      case False
      with Some show ?thesis
        by (simp add: completed_count_Cons item_completes_def stop_events_def stop_error_def)
    next
      case True
      with Some have compl: "item_completes L H opt dir v"
        by (simp add: item_completes_def)
      let ?k = "completed_count L H opt dir vs"
      have cnt: "completed_count L H opt dir (v # vs) = Suc ?k"
        using compl by (simp add: completed_count_Cons)
      have head: "item_events L H opt dir plen (c + 1) v =
          [Transfer s dir (item_filename H v), UpdateProgress (c + 1),
           UpdateCompleted (str_int (c + 1) @ '' of '' @ str_int plen)]"
        using Some by (simp add: item_events_def)
      have shift: "map (\<lambda>i. item_events L H opt dir plen (c + int i + 1) ((v # vs) ! i)) [0..<Suc ?k]
          = item_events L H opt dir plen (c + 1) v
            # map (\<lambda>i. item_events L H opt dir plen (c + 1 + int i + 1) (vs ! i)) [0..<?k]"
        by (simp add: map_upt_Suc add.assoc add.commute del: upt_Suc)
      have step: "download_items L H opt dir plen c (v # vs) =
          (item_events L H opt dir plen (c + 1) v @ fst (download_items L H opt dir plen (c + 1) vs),
           snd (download_items L H opt dir plen (c + 1) vs))"
        using Some True by (simp add: head split: prod.split)
      show ?thesis
        unfolding step cnt shift Cons.IH [of "c + 1"]
        by simp
    qed
  qed
qed

text \<open>
  C6. For an object whose dictionary is the one the constructor builds, a download that
  passes both checks transfers the items in playlist order, one after the other. With \<open>n\<close>
  the number of items and \<open>k\<close> the number of leading items that complete, the log is, for
  \<open>i = 1, ..., k\<close>, the transfer of item \<open>i\<close>, the progress bar set to \<open>i\<close> and the counter
  text \<open>i of n\<close>; each of these items has a first match. When all items complete (\<open>k = n\<close>),
  the reset of both widgets and the completion popup follow and the method returns;
  otherwise the loop stops at item \<open>k + 1\<close> with the exception of that item.
\<close>

theorem playlist_download_reports_items_in_order:
  assumes built: "select_dict self = playlist_select_dict L (playlist self)"
    and avail: "select_dict self opt = Some (Some xs)"
    and folder: "folder \<noteq> []"
  shows "download_playlist L H self folder opt =
     (let vs = videos (playlist self);
          dir = rename_dir H folder (remove_forbidden_characters H (title_p (playlist self)));
          k = completed_count L H opt dir vs
      in (concat (map (\<lambda>i. item_events L H opt dir (int (length vs)) (int i + 1) (vs ! i)) [0..<k])
            @ (if k = length vs then download_complete else stop_events L H opt dir (vs ! k)),
          if k = length vs then None else Some (stop_error L (vs ! k) opt)))
     \<and> (\<forall>i < completed_count L H opt
                (rename_dir H folder (remove_forbidden_characters H (title_p (playlist self))))
                (videos (playlist self)).
           \<exists>s. get_video L (videos (playlist self) ! i) opt = Some s)"
proof -
  let ?dir = "rename_dir H folder (remove_forbidden_characters H (title_p (playlist self)))"
  have len: "length_p (playlist self) = int (length (videos (playlist self)))"
    using built avail by (simp add: select_dict_available_length)
  have res: "\<forall>i < completed_count L H opt ?dir (videos (playlist self)).
           \<exists>s. get_video L (videos (playlist self) ! i) opt = Some s"
  proof (intro allI impI)
    fix i assume "i < completed_count L H opt ?dir (videos (playlist self))"
    then have "item_completes L H opt ?dir (videos (playlist self) ! i)"
      by (rule completed_items_resolve)
    then show "\<exists>s. get_video L (videos (playlist self) ! i) opt = Some s"
      by (simp add: item_completes_def split: option.splits)
  qed
  have "download_playlist L H self folder opt =
     (let vs = videos (playlist self);
          dir = ?dir;
          k = completed_count L H opt dir vs
      in (concat (map (\<lambda>i. item_events L H opt dir (int (length vs)) (int i + 1) (vs ! i)) [0..<k])
            @ (if k = length vs then download_complete else stop_events L H opt dir (vs ! k)),
          if k = length vs then None else Some (stop_error L (vs ! k) opt)))"
    using avail folder
    by (simp add: download_playlist_def Let_def download_items_closed len)
  with res show ?thesis by blast
qed

theorem playlist_download_reports_items_in_order_witness:
  "select_dict (playlist_object lib pl_three []) = playlist_select_dict lib (playlist (playlist_object lib pl_three []))
   \<and> select_dict (playlist_object lib pl_three []) LD = Some (Some [Some s360, Some s360, Some s360])
   \<and> ''out'' \<noteq> []
   \<and> completed_count lib (helpers [''out/MyList'']) LD ''out/MyList (1)'' (videos pl_three) = 3
   \<and> download_playlist lib (helpers [''out/MyList'']) (playlist_object lib pl_three []) ''out'' LD =
       ([Transfer s360 ''out/MyList (1)'' ''Song.mp4'', UpdateProgress 1, UpdateCompleted ''1 of 3'',
         Transfer s360 ''out/MyList (1)'' ''Intro part 1.mp4'', UpdateProgress 2, UpdateCompleted ''2 of 3'',
         Transfer s360 ''out/MyList (1)'' ''Live.mp4'', UpdateProgress 3, UpdateCompleted ''3 of 3'',
         UpdateProgress 0, UpdateCompleted [], Popup ''Download completed''], None)"
proof -
  let ?self = "playlist_object lib pl_three []"
  let ?H = "helpers [''out/MyList'']"
  have built: "select_dict ?self = playlist_select_dict lib (playlist ?self)"
    by (simp add: playlist_object_def)
  have g: "get_playlist lib pl_three LD = [Some s360, Some s360, Some s360]"
    by code_simp
  have avail: "select_dict ?self LD = Some (Some [Some s360, Some s360, Some s360])"
    by (simp add: playlist_object_def select_dict_LD g) (simp add: pl_three_def)
  have folder: "''out'' \<noteq> []"
    by simp
  have dir: "rename_dir ?H ''out'' (remove_forbidden_characters ?H (title_p (playlist ?self))) = ''out/MyList (1)''"
    by code_simp
  have vs: "videos (playlist ?self) = videos pl_three"
    by (simp add: playlist_object_def)
  have k: "completed_count lib ?H LD ''out/MyList (1)'' (videos pl_three) = 3"
    by code_simp
  have n: "length (videos pl_three) = 3"
    by (simp add: pl_three_def)
  have ev: "concat (map (\<lambda>i. item_events lib ?H LD ''out/MyList (1)'' 3 (int i + 1) (videos pl_three ! i)) [0..<3])
      = [Transfer s360 ''out/MyList (1)'' ''Song.mp4'', UpdateProgress 1, UpdateCompleted ''1 of 3'',
         Transfer s360 ''out/MyList (1)'' ''Intro part 1.mp4'', UpdateProgress 2, UpdateCompleted ''2 of 3'',
         Transfer s360 ''out/MyList (1)'' ''Live.mp4'', UpdateProgress 3, UpdateCompleted ''3 of 3'']"
    by code_simp
  from playlist_download_reports_items_in_order [OF built avail folder, of ?H]
  have "download_playlist lib ?H ?self ''out'' LD =
       ([Transfer s360 ''out/MyList (1)'' ''Song.mp4'', UpdateProgress 1, UpdateCompleted ''1 of 3'',
         Transfer s360 ''out/MyList (1)'' ''Intro part 1.mp4'', UpdateProgress 2, UpdateCompleted ''2 of 3'',
         Transfer s360 ''out/MyList (1)'' ''Live.mp4'', UpdateProgress 3, UpdateCompleted ''3 of 3'',
         UpdateProgress 0, UpdateCompleted [], Popup ''Download completed''], None)"
    by (simp add: Let_def dir vs k n ev download_complete_def)
  with built avail folder k show ?thesis
    by blast
qed

subsection \<open>Output file names\<close>

text \<open>
  C8. The claim: the extension of the output file is the container of the resolved stream.
  Both \<^verbatim>\<open>download\<close> methods append the fixed text \<^verbatim>\<open>.mp4\<close>. Here a single video whose
  first 128kbps audio stream is a webm stream: it is transferred to \<^verbatim>\<open>Live.mp4\<close>.
\<close>

theorem audio_file_named_mp4_for_webm_stream:
  "download_video lib (helpers []) (video_object lib v_webm []) ''out'' AUDIO
     = ([Transfer a128_webm ''out'' ''Live.mp4''], None)
   \<and> subtype a128_webm = ''webm''
   \<and> ''Live.mp4'' \<noteq> sanitize (title v_webm) @ ''.'' @ subtype a128_webm"
  by code_simp

lemma download_items_transfer:
  "Transfer s d f \<in> set (fst (download_items L H opt dir plen c vs)) \<Longrightarrow>
     \<exists>v \<in> set vs. get_video L v opt = Some s \<and> d = dir \<and> f = item_filename H v"
proof (induction vs arbitrary: c)
  case Nil
  then show ?case by simp
next
  case (Cons v vs)
  show ?case
  proof (cases "get_video L v opt")
    case None
    with Cons.prems show ?thesis by simp
  next
    case (Some s')
    show ?thesis
    proof (cases "transfers L s' dir (item_filename H v)")
      case False
      with Some Cons.prems show ?thesis by simp
    next
      case True
      with Some Cons.prems
      have "Transfer s d f = Transfer s' dir (item_filename H v)
          \<or> Transfer s d f \<in> set (fst (download_items L H opt dir plen (c + 1) vs))"
        by (auto split: prod.splits)
      then show ?thesis
      proof
        assume "Transfer s d f = Transfer s' dir (item_filename H v)"
        with Some show ?thesis by simp
      next
        assume "Transfer s d f \<in> set (fst (download_items L H opt dir plen (c + 1) vs))"
        from Cons.IH [OF this] show ?thesis by auto
      qed
    qed
  qed
qed

text \<open>
  C8, as amended. Every transfer of a playlist download is the first match of one of the
  playlist's videos and is named by that video's title, passed through
  \<^verbatim>\<open>remove_forbidden_characters\<close>, followed by \<^verbatim>\<open>.mp4\<close>; the transfer of a single-video
  download is the stored stream, written to the folder under the title, passed through
  \<^verbatim>\<open>remove_forbidden_characters\<close> and \<^verbatim>\<open>rename_file\<close>, followed by \<^verbatim>\<open>.mp4\<close>. The
  extension is the same for every option and every container.
\<close>

theorem output_file_names_end_in_mp4:
  "(Transfer s d f \<in> set (fst (download_playlist L H self folder opt)) \<longrightarrow>
      (\<exists>v \<in> set (videos (playlist self)).
          get_video L v opt = Some s \<and> f = remove_forbidden_characters H (title v) @ ''.mp4''))
   \<and> (Transfer s d f \<in> set (fst (download_video L H vself folder opt)) \<longrightarrow>
      select_dict_v vself opt = Some (Some s) \<and> d = folder
      \<and> f = rename_file H folder (remove_forbidden_characters H (title (video vself))) @ ''.mp4'')"
proof (intro conjI impI)
  assume t: "Transfer s d f \<in> set (fst (download_playlist L H self folder opt))"
  let ?dir = "rename_dir H folder (remove_forbidden_characters H (title_p (playlist self)))"
  from t have "Transfer s d f \<in> set (fst (download_items L H opt ?dir (length_p (playlist self)) 0
      (videos (playlist self))))"
    by (auto simp: download_playlist_def Let_def download_complete_def
        DOWNLOAD_DIR_POPUP_def RESOLUTION_UNAVAILABLE_POPUP_def
        split: option.splits if_splits prod.splits)
  from download_items_transfer [OF this]
  show "\<exists>v \<in> set (videos (playlist self)).
          get_video L v opt = Some s \<and> f = remove_forbidden_characters H (title v) @ ''.mp4''"
    by (auto simp: item_filename_def)
next
  assume t: "Transfer s d f \<in> set (fst (download_video L H vself folder opt))"
  then show "select_dict_v vself opt = Some (Some s)"
    by (auto simp: download_video_def DOWNLOAD_DIR_POPUP_def RESOLUTION_UNAVAILABLE_POPUP_def
        split: option.splits if_splits)
  from t show "d = folder"
    by (auto simp: download_video_def DOWNLOAD_DIR_POPUP_def RESOLUTION_UNAVAILABLE_POPUP_def
        split: option.splits if_splits)
  from t show "f = rename_file H folder (remove_forbidden_characters H (title (video vself))) @ ''.mp4''"
    by (auto simp: download_video_def video_filename_def DOWNLOAD_DIR_POPUP_def
        RESOLUTION_UNAVAILABLE_POPUP_def split: option.splits if_splits)
qed

theorem output_file_names_end_in_mp4_witness:
  "Transfer a128 ''out/MyList'' ''Song.mp4''
     \<in> set (fst (download_playlist lib (helpers []) (playlist_object lib pl_three []) ''out'' AUDIO))
   \<and> (\<exists>v \<in> set (videos pl_three).
         get_video lib v AUDIO = Some a128 \<and> ''Song.mp4'' = sanitize (title v) @ ''.mp4'')
   \<and> Transfer a128_webm ''out'' ''Live.mp4''
     \<in> set (fst (download_video lib (helpers []) (video_object lib v_webm []) ''out'' AUDIO))
   \<and> select_dict_v (video_object lib v_webm []) AUDIO = Some (Some a128_webm)
   \<and> ''Live.mp4'' = sanitize (title v_webm) @ ''.mp4''"
proof -
  let ?self = "playlist_object lib pl_three []"
  let ?vself = "video_object lib v_webm []"
  have p: "Transfer a128 ''out/MyList'' ''Song.mp4''
     \<in> set (fst (download_playlist lib (helpers []) ?self ''out'' AUDIO))"
    by code_simp
  have v: "Transfer a128_webm ''out'' ''Live.mp4''
     \<in> set (fst (download_video lib (helpers []) ?vself ''out'' AUDIO))"
    by code_simp
  note T = output_file_names_end_in_mp4
  from T [where self = ?self and L = lib and H = "helpers []" and folder = "''out''" and opt = AUDIO
      and s = a128 and d = "''out/MyList''" and f = "''Song.mp4''"] p
  have "\<exists>v \<in> set (videos (playlist ?self)). get_video lib v AUDIO = Some a128
      \<and> ''Song.mp4'' = remove_forbidden_characters (helpers []) (title v) @ ''.mp4''"
    by blast
  then have c1: "\<exists>v \<in> set (videos pl_three).
         get_video lib v AUDIO = Some a128 \<and> ''Song.mp4'' = sanitize (title v) @ ''.mp4''"
    by (simp add: playlist_object_def helpers_def)
  from T [where vself = ?vself and L = lib and H = "helpers []" and folder = "''out''" and opt = AUDIO
      and s = a128_webm and d = "''out''" and f = "''Live.mp4''"] v
  have "select_dict_v ?vself AUDIO = Some (Some a128_webm)
      \<and> ''Live.mp4'' = rename_file (helpers []) ''out''
            (remove_forbidden_characters (helpers []) (title (video ?vself))) @ ''.mp4''"
    by blast
  then have c2: "select_dict_v ?vself AUDIO = Some (Some a128_webm)
      \<and> ''Live.mp4'' = sanitize (title v_webm) @ ''.mp4''"
    by (simp add: video_object_def helpers_def)
  from p v c1 c2 show ?thesis
    by blast
qed

subsection \<open>The stored list and the transferred streams\<close>

lemma transferred_append: "transferred (xs @ ys) = transferred xs @ transferred ys"
  by (induction xs rule: transferred.induct) simp_all

lemma download_items_transferred:
  "map Some (transferred (fst (download_items L H opt dir plen c vs))) =
     take (attempted_count L H opt dir vs) (map (\<lambda>v. get_video L v opt) vs)"
proof (induction vs arbitrary: c)
  case Nil
  show ?case by simp
next
  case (Cons v vs)
  show ?case
  proof (cases "get_video L v opt")
    case None
    then show ?thesis by simp
  next
    case (Some s)
    then show ?thesis
      using Cons.IH [of "c + 1"]
      by (cases "download_items L H opt dir plen (c + 1) vs") simp
  qed
qed

text \<open>
  C10. Once the stored entry of the option is a list, \<^verbatim>\<open>PlaylistDownloader.download\<close> does
  not read it: two objects with the same playlist and any two stored lists give the same
  log and the same outcome. With a folder given, the streams it transfers are, in order,
  the first matches of the leading items under the option's own filters, as
  \<^verbatim>\<open>get_playlist\<close> computes them from the catalogue, up to the last item whose transfer
  is started.
\<close>

theorem playlist_download_ignores_stored_list:
  assumes "select_dict self opt = Some (Some xs)"
    and "select_dict self' opt = Some (Some ys)"
    and "playlist self' = playlist self"
  shows "download_playlist L H self' folder opt = download_playlist L H self folder opt
     \<and> (folder \<noteq> [] \<longrightarrow>
          map Some (transferred (fst (download_playlist L H self folder opt))) =
            take (attempted_count L H opt
                    (rename_dir H folder (remove_forbidden_characters H (title_p (playlist self))))
                    (videos (playlist self)))
                 (get_playlist L (playlist self) opt))"
proof -
  let ?dir = "rename_dir H folder (remove_forbidden_characters H (title_p (playlist self)))"
  let ?run = "download_items L H opt ?dir (length_p (playlist self)) 0 (videos (playlist self))"
  have same: "download_playlist L H self' folder opt = download_playlist L H self folder opt"
    using assms by (simp add: download_playlist_def)
  have "transferred (fst (download_playlist L H self folder opt)) = transferred (fst ?run)"
    if "folder \<noteq> []"
    using that assms(1)
    by (cases ?run)
      (auto simp: download_playlist_def Let_def transferred_append download_complete_def
        split: option.splits)
  with download_items_transferred [of L H opt ?dir "length_p (playlist self)" 0 "videos (playlist self)"]
  have "folder \<noteq> [] \<longrightarrow>
          map Some (transferred (fst (download_playlist L H self folder opt))) =
            take (attempted_count L H opt ?dir (videos (playlist self)))
                 (get_playlist L (playlist self) opt)"
    by (simp add: get_playlist_def)
  with same show ?thesis by blast
qed

theorem playlist_download_ignores_stored_list_witness:
  "select_dict (playlist_object lib pl_three []) AUDIO = Some (Some [Some s360, Some s360, Some s360])
   \<and> select_dict ((playlist_object lib pl_three [])\<lparr>select_dict := [AUDIO \<mapsto> Some []]\<rparr>) AUDIO = Some (Some [])
   \<and> download_playlist lib (helpers []) ((playlist_object lib pl_three [])\<lparr>select_dict := [AUDIO \<mapsto> Some []]\<rparr>) ''out'' AUDIO
       = download_playlist lib (helpers []) (playlist_object lib pl_three []) ''out'' AUDIO
   \<and> transferred (fst (download_playlist lib (helpers []) (playlist_object lib pl_three []) ''out'' AUDIO)) = [a128]
   \<and> get_playlist lib pl_three AUDIO = [Some a128, None, Some a128_webm]"
proof -
  let ?self = "playlist_object lib pl_three []"
  let ?self' = "?self\<lparr>select_dict := [AUDIO \<mapsto> Some []]\<rparr>"
  have l: "get_playlist lib pl_three LD = [Some s360, Some s360, Some s360]"
    by code_simp
  have a: "get_playlist lib pl_three AUDIO = [Some a128, None, Some a128_webm]"
    by code_simp
  have h1: "select_dict ?self AUDIO = Some (Some [Some s360, Some s360, Some s360])"
    by (simp add: playlist_object_def select_dict_AUDIO l) (simp add: pl_three_def)
  have h2: "select_dict ?self' AUDIO = Some (Some [])"
    by simp
  have h3: "playlist ?self' = playlist ?self"
    by simp
  have n: "attempted_count lib (helpers []) AUDIO
             (rename_dir (helpers []) ''out'' (remove_forbidden_characters (helpers []) (title_p (playlist ?self))))
             (videos (playlist ?self)) = 1"
    by code_simp
  from playlist_download_ignores_stored_list [OF h1 h2 h3, of lib "helpers []" "''out''"]
  have same: "download_playlist lib (helpers []) ?self' ''out'' AUDIO
       = download_playlist lib (helpers []) ?self ''out'' AUDIO"
    and tr: "map Some (transferred (fst (download_playlist lib (helpers []) ?self ''out'' AUDIO))) =
            take (attempted_count lib (helpers []) AUDIO
             (rename_dir (helpers []) ''out'' (remove_forbidden_characters (helpers []) (title_p (playlist ?self))))
             (videos (playlist ?self))) (get_playlist lib (playlist ?self) AUDIO)"
    by simp_all
  have "playlist ?self = pl_three"
    by (simp add: playlist_object_def)
  with tr n a have "map Some (transferred (fst (download_playlist lib (helpers []) ?self ''out'' AUDIO))) = [Some a128]"
    by simp
  then have "transferred (fst (download_playlist lib (helpers []) ?self ''out'' AUDIO)) = [a128]"
    by (metis list.inj_map_strong list.simps(8,9) option.inject)
  with h1 h2 same a show ?thesis
    by blast
qed

end
